theory Spec2Isabelle
  imports Complex_Main
begin

section \<open>The sleep / training-recovery cleaning and merge pipeline\<close>

text \<open>
  The program is the notebook \<^verbatim>\<open>PandasDFMerging.ipynb\<close>: two tables are read, each is
  cleaned by a straight-line sequence of pandas calls, and the two cleaned tables are
  combined by \<^verbatim>\<open>pd.merge(Sleep, TrRec, on='date')\<close>.

  Modelling decisions.
  \<^item> A float64 column is a list of \<open>f64 option\<close>: \<open>None\<close> is NaN, \<open>Some (Fin q)\<close> the
    double whose value is the rational \<open>q\<close>, \<open>Some PInf\<close> and \<open>Some MInf\<close> the two
    infinities. The sign of zero is not modelled.
  \<^item> The notebook never adds or divides numbers itself: the only arithmetic is inside
    \<^verbatim>\<open>DataFrame.mean()\<close> and \<^verbatim>\<open>Series.mean()\<close>. How pandas sums a column in double
    precision (the order of the additions, each of them rounded) depends on the
    installation, so the mean of a column that holds at least one number is a parameter
    \<open>mean64\<close> of the cleaners; its result is \<open>None\<close> when the double-precision mean is
    NaN. Everything proved holds for every such function. For examples, \<open>ieee_mean\<close>
    below is the mean of a short column in IEEE 754 binary64 arithmetic.
  \<^item> A column as \<^verbatim>\<open>read_csv\<close> delivers it when the text is not all numeric is a list of
    \<open>cell\<close>: a number, a piece of text, or NaN.
  \<^item> The thirteen Sleep metric columns are float64 columns (the notebook hands them to
    \<^verbatim>\<open>DataFrame.mean\<close> without coercion); the four Training/Recovery columns are cell
    columns (the notebook coerces three of them with \<^verbatim>\<open>to_numeric\<close>).
  \<^item> The text-to-date parser behind \<^verbatim>\<open>pd.to_datetime(...).dt.date\<close> and the
    text-to-number parser behind \<^verbatim>\<open>pd.to_numeric\<close> are pandas internals; they are
    parameters \<open>parse_date\<close> and \<open>parse_num\<close>, with \<open>None\<close> for text they reject.
  \<^item> Every pandas call that can raise returns \<open>error + result\<close>.
  \<^item> The notebook writes a column into the frame and reads it back in the next
    statement; the model binds the column to a name instead.
\<close>

subsection \<open>Data\<close>

datatype error = DateParseError | DuplicateKeyError | LengthMismatch | CoercionError

datatype f64 = Fin rat | PInf | MInf

datatype cell = Num f64 | Str string | NaN

type_synonym float_series = "f64 option list"

datatype column = Float64 float_series | Object "cell list"

record 'd frame =
  index :: "'d list"
  columns :: "(string \<times> column) list"

definition bind_err :: "error + 'a \<Rightarrow> ('a \<Rightarrow> error + 'b) \<Rightarrow> error + 'b" where
  "bind_err m f = (case m of Inl e \<Rightarrow> Inl e | Inr x \<Rightarrow> f x)"

subsection \<open>The pandas and numpy calls the notebook makes\<close>

text \<open>\<^verbatim>\<open>pd.to_datetime(col).dt.date\<close>: raises on the first text that is not a date.\<close>

fun to_datetime_date :: "(string \<Rightarrow> 'd option) \<Rightarrow> string list \<Rightarrow> error + 'd list" where
  "to_datetime_date parse_date [] = Inr []"
| "to_datetime_date parse_date (s # ss) =
     (case parse_date s of
        None \<Rightarrow> Inl DateParseError
      | Some d \<Rightarrow> bind_err (to_datetime_date parse_date ss) (\<lambda>ds. Inr (d # ds)))"

text \<open>
  \<^verbatim>\<open>df.set_index('date', verify_integrity=...)\<close>: the date column becomes the row key.
  Duplicate keys are looked for only when \<open>verify_integrity\<close> is set; its default,
  which the notebook uses, is \<open>False\<close>.
\<close>

definition set_index :: "bool \<Rightarrow> 'd list \<Rightarrow> column list \<Rightarrow> error + 'd list \<times> column list" where
  "set_index verify_integrity dates cols =
     (if verify_integrity \<and> \<not> distinct dates then Inl DuplicateKeyError
      else Inr (dates, cols))"

text \<open>\<^verbatim>\<open>df.columns = names\<close>: positional renaming, raises when the lengths differ.\<close>

definition set_columns :: "string list \<Rightarrow> 'd list \<times> column list \<Rightarrow> error + 'd frame" where
  "set_columns names t =
     (if length names \<noteq> length (snd t) then Inl LengthMismatch
      else Inr \<lparr>index = fst t, columns = zip names (snd t)\<rparr>)"

text \<open>
  \<^verbatim>\<open>Series.mean()\<close> with the default \<^verbatim>\<open>skipna=True\<close>: NaN when nothing is present,
  otherwise the double-precision mean \<open>mean64\<close> of the column.
\<close>

definition present :: "float_series \<Rightarrow> f64 list" where
  "present xs = [x. Some x \<leftarrow> xs]"

definition series_mean :: "(float_series \<Rightarrow> f64 option) \<Rightarrow> float_series \<Rightarrow> f64 option" where
  "series_mean mean64 xs = (if present xs = [] then None else mean64 xs)"

text \<open>\<^verbatim>\<open>Series.fillna(v)\<close>: NaN entries become \<open>v\<close>; filling with NaN changes nothing.\<close>

definition series_fillna :: "f64 option \<Rightarrow> float_series \<Rightarrow> float_series" where
  "series_fillna v xs = map (\<lambda>x. case x of None \<Rightarrow> v | Some y \<Rightarrow> Some y) xs"

text \<open>
  \<^verbatim>\<open>DataFrame.mean()\<close>: one mean per numeric column, labelled with the column's name;
  object columns are left out.
\<close>

fun frame_mean ::
  "(float_series \<Rightarrow> f64 option) \<Rightarrow> (string \<times> column) list \<Rightarrow> (string \<times> f64 option) list" where
  "frame_mean mean64 [] = []"
| "frame_mean mean64 ((n, Float64 xs) # cs) = (n, series_mean mean64 xs) # frame_mean mean64 cs"
| "frame_mean mean64 ((n, Object xs) # cs) = frame_mean mean64 cs"

text \<open>
  \<^verbatim>\<open>DataFrame.fillna(series)\<close>: each column whose name labels an entry of the series is
  filled with that entry; the other columns are untouched.
\<close>

fun column_fillna :: "f64 option \<Rightarrow> column \<Rightarrow> column" where
  "column_fillna v (Float64 xs) = Float64 (series_fillna v xs)"
| "column_fillna v (Object xs) =
     Object (map (\<lambda>c. if c = NaN then (case v of None \<Rightarrow> NaN | Some q \<Rightarrow> Num q) else c) xs)"

definition frame_fillna :: "(string \<times> f64 option) list \<Rightarrow> (string \<times> column) list \<Rightarrow> (string \<times> column) list" where
  "frame_fillna value cs =
     map (\<lambda>(n, c). case map_of value n of None \<Rightarrow> (n, c) | Some v \<Rightarrow> (n, column_fillna v c)) cs"

text \<open>\<^verbatim>\<open>df.fillna(df.mean())\<close>, the statement of the Sleep cleaner.\<close>

definition fillna_mean :: "(float_series \<Rightarrow> f64 option) \<Rightarrow> 'd frame \<Rightarrow> 'd frame" where
  "fillna_mean mean64 f = f\<lparr>columns := frame_fillna (frame_mean mean64 (columns f)) (columns f)\<rparr>"

text \<open>
  \<^verbatim>\<open>pd.to_numeric(col, errors=...)\<close>. With \<^verbatim>\<open>errors='raise'\<close> text that is not a number
  raises; with \<^verbatim>\<open>errors='coerce'\<close>, which the notebook passes, it becomes NaN.
\<close>

datatype errors_arg = Raise | Coerce

fun to_numeric_cell :: "errors_arg \<Rightarrow> (string \<Rightarrow> f64 option) \<Rightarrow> cell \<Rightarrow> error + f64 option" where
  "to_numeric_cell errors parse_num (Num q) = Inr (Some q)"
| "to_numeric_cell errors parse_num NaN = Inr None"
| "to_numeric_cell errors parse_num (Str s) =
     (case parse_num s of
        Some q \<Rightarrow> Inr (Some q)
      | None \<Rightarrow> (case errors of Raise \<Rightarrow> Inl CoercionError | Coerce \<Rightarrow> Inr None))"

fun to_numeric :: "errors_arg \<Rightarrow> (string \<Rightarrow> f64 option) \<Rightarrow> cell list \<Rightarrow> error + float_series" where
  "to_numeric errors parse_num [] = Inr []"
| "to_numeric errors parse_num (c # cs) =
     bind_err (to_numeric_cell errors parse_num c) (\<lambda>x.
     bind_err (to_numeric errors parse_num cs) (\<lambda>xs. Inr (x # xs)))"

text \<open>
  The order of the doubles other than NaN, and the elementwise comparisons of a float64
  column; every comparison with NaN is false.
\<close>

fun le64 :: "f64 \<Rightarrow> f64 \<Rightarrow> bool" where
  "le64 MInf y = True"
| "le64 x PInf = True"
| "le64 (Fin a) (Fin b) = (a \<le> b)"
| "le64 x y = False"

definition lt64 :: "f64 \<Rightarrow> f64 \<Rightarrow> bool" where
  "lt64 x y = (le64 x y \<and> x \<noteq> y)"

definition series_eq :: "f64 \<Rightarrow> float_series \<Rightarrow> bool list" where
  "series_eq q xs = map (\<lambda>x. case x of None \<Rightarrow> False | Some y \<Rightarrow> y = q) xs"

definition between :: "f64 \<Rightarrow> f64 \<Rightarrow> float_series \<Rightarrow> bool list" where
  "between lo hi xs = map (\<lambda>x. case x of None \<Rightarrow> False | Some y \<Rightarrow> le64 lo y \<and> le64 y hi) xs"

definition series_gt :: "f64 \<Rightarrow> float_series \<Rightarrow> bool list" where
  "series_gt q xs = map (\<lambda>x. case x of None \<Rightarrow> False | Some y \<Rightarrow> lt64 q y) xs"

definition isnull :: "float_series \<Rightarrow> bool list" where
  "isnull xs = map (\<lambda>x. x = None) xs"

text \<open>
  \<^verbatim>\<open>np.select(condlist, choicelist, default=0)\<close> with scalar choices. numpy starts from
  an array of the default and copies the choices in, last condition first, so that an
  earlier condition overwrites a later one.
\<close>

definition copyto :: "'a list \<Rightarrow> 'a \<Rightarrow> bool list \<Rightarrow> 'a list" where
  "copyto result choice cond = map (\<lambda>(r, c). if c then choice else r) (zip result cond)"

definition np_select :: "nat \<Rightarrow> bool list list \<Rightarrow> 'a list \<Rightarrow> 'a \<Rightarrow> 'a list" where
  "np_select n condlist choicelist dflt =
     fold (\<lambda>(cond, choice) result. copyto result choice cond)
          (rev (zip condlist choicelist)) (replicate n dflt)"

text \<open>\<^verbatim>\<open>np.where(cond, a, b)\<close> on arrays of one length.\<close>

definition np_where :: "bool list \<Rightarrow> 'a list \<Rightarrow> 'a list \<Rightarrow> 'a list" where
  "np_where cond a b = map (\<lambda>(c, x, y). if c then x else y) (zip cond (zip a b))"

subsection \<open>Clean Dataframe 1: Sleep Data\<close>

definition sleep_names :: "string list" where
  "sleep_names = [''TotalSleep'', ''Awake'', ''REM'', ''Light'', ''Deep'', ''Restless'',
                  ''Efficiency'', ''Latency'', ''AvgRHR'', ''LowRHR'', ''AvgHRV'', ''TDiff'', ''RespR'']"

definition clean_sleep ::
  "(float_series \<Rightarrow> f64 option) \<Rightarrow> (string \<Rightarrow> 'd option) \<Rightarrow> string list \<Rightarrow> float_series list \<Rightarrow>
   error + 'd frame" where
  "clean_sleep mean64 parse_date date metrics =
     bind_err (to_datetime_date parse_date date) (\<lambda>dates.
     bind_err (set_index False dates (map Float64 metrics)) (\<lambda>t.
     bind_err (set_columns sleep_names t) (\<lambda>f.
     Inr (fillna_mean mean64 f))))"

subsection \<open>Clean Dataframe 2: Training and Recovery Data\<close>

definition trrec_names :: "string list" where
  "trrec_names = [''RecPts'', ''RPE'', ''TSS'', ''Beers'']"

definition conditions :: "float_series \<Rightarrow> bool list list" where
  "conditions rpe =
     [series_eq (Fin 0) rpe, between (Fin (1/10)) (Fin 3) rpe, between (Fin (31/10)) (Fin 5) rpe,
      between (Fin (51/10)) (Fin 7) rpe, series_gt (Fin 7) rpe]"

definition values_list :: "f64 list" where
  "values_list = [Fin 0, Fin 41, Fin 53, Fin 77, Fin 85]"

definition impute_tss :: "float_series \<Rightarrow> float_series \<Rightarrow> float_series" where
  "impute_tss rpe tss =
     np_where (isnull tss) (map Some (np_select (length rpe) (conditions rpe) values_list (Fin 0))) tss"

text \<open>\<^verbatim>\<open>df[name] = col\<close>: replaces the column of that name, or appends a new one.\<close>

definition assign :: "string \<Rightarrow> column \<Rightarrow> 'd frame \<Rightarrow> 'd frame" where
  "assign n c f =
     f\<lparr>columns :=
         (if n \<in> fst ` set (columns f)
          then map (\<lambda>(m, old). if m = n then (m, c) else (m, old)) (columns f)
          else columns f @ [(n, c)])\<rparr>"

definition clean_trrec ::
  "(float_series \<Rightarrow> f64 option) \<Rightarrow> (string \<Rightarrow> 'd option) \<Rightarrow> (string \<Rightarrow> f64 option) \<Rightarrow> string list \<Rightarrow>
   cell list list \<Rightarrow> error + 'd frame" where
  "clean_trrec mean64 parse_date parse_num date metrics =
     bind_err (to_datetime_date parse_date date) (\<lambda>dates.
     bind_err (set_index False dates (map Object metrics)) (\<lambda>t.
     bind_err (set_columns trrec_names t) (\<lambda>f0.
     bind_err (to_numeric Coerce parse_num (metrics ! 0)) (\<lambda>recpts0.
     let f1 = assign ''RecPts'' (Float64 recpts0) f0;
         recpts = series_fillna (series_mean mean64 recpts0) recpts0;
         f2 = assign ''RecPts'' (Float64 recpts) f1 in
     bind_err (to_numeric Coerce parse_num (metrics ! 1)) (\<lambda>rpe0.
     let f3 = assign ''RPE'' (Float64 rpe0) f2;
         rpe = series_fillna (Some (Fin 0)) rpe0;
         f4 = assign ''RPE'' (Float64 rpe) f3 in
     bind_err (to_numeric Coerce parse_num (metrics ! 2)) (\<lambda>tss0.
     let f5 = assign ''TSS'' (Float64 tss0) f4;
         tss = impute_tss rpe tss0 in
     Inr (assign ''TSS'' (Float64 tss) f5)))))))"

subsection \<open>Merge Dataframes into STR\<close>

text \<open>
  \<^verbatim>\<open>pd.merge(left, right, on='date')\<close> where \<open>date\<close> names the row key of both frames: an
  inner join. pandas numbers the keys in the order in which they first occur, in the
  left key column and then in the right one (\<open>factorize\<close>), and for each key in that order
  pairs every left row holding it with every right row holding it (\<open>inner_join\<close>).
  Columns of one name in both frames get the suffixes \<open>_x\<close> and \<open>_y\<close>.
\<close>

fun factorize :: "'a list \<Rightarrow> 'a list \<Rightarrow> 'a list" where
  "factorize seen [] = seen"
| "factorize seen (k # ks) = factorize (if k \<in> set seen then seen else seen @ [k]) ks"

definition positions :: "'a \<Rightarrow> 'a list \<Rightarrow> nat list" where
  "positions k ks = filter (\<lambda>i. ks ! i = k) [0..<length ks]"

definition inner_join :: "'a list \<Rightarrow> 'a list \<Rightarrow> (nat \<times> nat) list" where
  "inner_join lkeys rkeys =
     concat (map (\<lambda>k. List.product (positions k lkeys) (positions k rkeys))
                 (factorize [] (lkeys @ rkeys)))"

fun take_rows :: "nat list \<Rightarrow> column \<Rightarrow> column" where
  "take_rows ix (Float64 xs) = Float64 (map (\<lambda>i. xs ! i) ix)"
| "take_rows ix (Object xs) = Object (map (\<lambda>i. xs ! i) ix)"

definition suffixed :: "string \<Rightarrow> (string \<times> column) list \<Rightarrow> (string \<times> column) list \<Rightarrow> (string \<times> column) list" where
  "suffixed sfx other cs =
     map (\<lambda>(n, c). (if n \<in> fst ` set other then n @ sfx else n, c)) cs"

definition merge :: "'d frame \<Rightarrow> 'd frame \<Rightarrow> 'd frame" where
  "merge left right =
     (let ix = inner_join (index left) (index right) in
      \<lparr>index = map (\<lambda>(i, j). index left ! i) ix,
       columns =
         map (\<lambda>(n, c). (n, take_rows (map fst ix) c)) (suffixed ''_x'' (columns right) (columns left))
         @ map (\<lambda>(n, c). (n, take_rows (map snd ix) c)) (suffixed ''_y'' (columns left) (columns right))\<rparr>)"

text \<open>
  The whole notebook up to \<^verbatim>\<open>STR\<close>: clean Sleep, clean TrRec, merge. The mean of
  \<^verbatim>\<open>DataFrame.mean()\<close> and the mean of \<^verbatim>\<open>Series.mean()\<close> are separate parameters.
\<close>

definition pipeline ::
  "(float_series \<Rightarrow> f64 option) \<Rightarrow> (float_series \<Rightarrow> f64 option) \<Rightarrow> (string \<Rightarrow> 'd option) \<Rightarrow>
   (string \<Rightarrow> f64 option) \<Rightarrow> string list \<Rightarrow> float_series list \<Rightarrow> string list \<Rightarrow> cell list list \<Rightarrow>
   error + 'd frame" where
  "pipeline frame_mean64 series_mean64 parse_date parse_num sleep_date sleep_metrics trrec_date
       trrec_metrics =
     bind_err (clean_sleep frame_mean64 parse_date sleep_date sleep_metrics) (\<lambda>Sleep.
     bind_err (clean_trrec series_mean64 parse_date parse_num trrec_date trrec_metrics) (\<lambda>TrRec.
     Inr (merge Sleep TrRec)))"

definition column_of :: "'d frame \<Rightarrow> string \<Rightarrow> column option" where
  "column_of f n = map_of (columns f) n"

subsection \<open>Double-precision arithmetic, for the examples\<close>

text \<open>
  IEEE 754 binary64: a number is rounded to the nearest double (53 significant bits,
  smallest spacing \<open>2\<^sup>-\<^sup>1\<^sup>0\<^sup>7\<^sup>4\<close>), a tie goes to the even significand, and a result of
  magnitude \<open>2\<^sup>1\<^sup>0\<^sup>2\<^sup>4\<close> or more is an infinity.
\<close>

definition pow2 :: "int \<Rightarrow> rat" where
  "pow2 e = (if 0 \<le> e then 2 ^ nat e else 1 / 2 ^ nat (- e))"

fun bit_length :: "nat \<Rightarrow> nat" where
  "bit_length n = (if n = 0 then 0 else Suc (bit_length (n div 2)))"

text \<open>\<open>ilog2 a\<close> is the integer \<open>e\<close> with \<open>2\<^sup>e \<le> a < 2\<^sup>e\<^sup>+\<^sup>1\<close>, for positive \<open>a\<close>.\<close>

definition ilog2 :: "rat \<Rightarrow> int" where
  "ilog2 a =
     (if 1 \<le> a then int (bit_length (nat \<lfloor>a\<rfloor>)) - 1
      else - int (bit_length (nat (\<lceil>1 / a\<rceil> - 1))))"

definition round_half_even :: "rat \<Rightarrow> int" where
  "round_half_even q =
     (let f = \<lfloor>q\<rfloor>; d = q - of_int f
      in if d < 1/2 then f else if 1/2 < d then f + 1 else if even f then f else f + 1)"

definition round64 :: "rat \<Rightarrow> f64" where
  "round64 q =
     (if q = 0 then Fin 0
      else let a = \<bar>q\<bar>;
               u = max (ilog2 a - 52) (- 1074);
               r = of_int (round_half_even (a / pow2 u)) * pow2 u
           in if pow2 1024 \<le> r then (if 0 < q then PInf else MInf)
              else Fin (if 0 < q then r else - r))"

fun add64 :: "f64 \<Rightarrow> f64 \<Rightarrow> f64 option" where
  "add64 (Fin a) (Fin b) = Some (round64 (a + b))"
| "add64 PInf MInf = None"
| "add64 MInf PInf = None"
| "add64 PInf y = Some PInf"
| "add64 MInf y = Some MInf"
| "add64 x PInf = Some PInf"
| "add64 x MInf = Some MInf"

fun div64 :: "f64 \<Rightarrow> nat \<Rightarrow> f64" where
  "div64 (Fin a) n = round64 (a / of_nat n)"
| "div64 PInf n = PInf"
| "div64 MInf n = MInf"

fun sum64 :: "f64 option \<Rightarrow> f64 list \<Rightarrow> f64 option" where
  "sum64 acc [] = acc"
| "sum64 None (x # xs) = None"
| "sum64 (Some a) (x # xs) = sum64 (add64 a x) xs"

text \<open>
  The mean of a column with at least one number: the numbers are added from left to
  right, starting from 0, and the sum is divided by their count. This is what numpy and
  pandas compute for a column of fewer than eight cells; for longer columns the additions
  can be grouped differently.
\<close>

definition ieee_mean :: "float_series \<Rightarrow> f64 option" where
  "ieee_mean xs =
     (case sum64 (Some (Fin 0)) (present xs) of
        None \<Rightarrow> None
      | Some s \<Rightarrow> Some (div64 s (length (present xs))))"

subsection \<open>The specification's words, for comparison with the code\<close>



text \<open>What \<^verbatim>\<open>errors='coerce'\<close> makes of one cell.\<close>

fun coerced :: "(string \<Rightarrow> f64 option) \<Rightarrow> cell \<Rightarrow> f64 option" where
  "coerced parse_num (Num q) = Some q"
| "coerced parse_num NaN = None"
| "coerced parse_num (Str s) = parse_num s"

section \<open>Properties\<close>

subsection \<open>The numpy calls\<close>

lemma length_copyto: "length (copyto r c b) = min (length r) (length b)"
  by (simp add: copyto_def)


lemma length_np_select:
  "length (np_select (length rpe) (conditions rpe) values_list (Fin 0)) = length rpe"
  by (simp add: np_select_def conditions_def values_list_def length_copyto
      series_eq_def between_def series_gt_def)



lemma impute_tss_nth:
  "length tss = length rpe \<Longrightarrow> i < length rpe \<Longrightarrow>
   impute_tss rpe tss ! i =
     (case tss ! i of
        None \<Rightarrow> Some (np_select (length rpe) (conditions rpe) values_list (Fin 0) ! i)
      | Some t \<Rightarrow> Some t)"
  by (simp add: impute_tss_def np_where_def isnull_def length_np_select split: option.splits)

subsection \<open>Coercion and the shape of the cleaned Training/Recovery table\<close>

lemma to_numeric_cell_coerce: "to_numeric_cell Coerce pn c = Inr (coerced pn c)"
  by (cases c) (auto split: option.splits)

lemma to_numeric_coerce: "to_numeric Coerce pn cs = Inr (map (coerced pn) cs)"
  by (induction cs) (simp_all add: bind_err_def to_numeric_cell_coerce)

lemma clean_trrec_Inr:
  assumes "to_datetime_date pd date = Inr dates"
  shows "clean_trrec mean64 pd pn date [c0, c1, c2, c3] =
     Inr \<lparr>index = dates,
          columns = [(''RecPts'', Float64 (series_fillna (series_mean mean64 (map (coerced pn) c0))
                                                        (map (coerced pn) c0))),
                     (''RPE'', Float64 (series_fillna (Some (Fin 0)) (map (coerced pn) c1))),
                     (''TSS'', Float64 (impute_tss (series_fillna (Some (Fin 0)) (map (coerced pn) c1))
                                                  (map (coerced pn) c2))),
                     (''Beers'', Object c3)]\<rparr>"
  using assms
  by (simp add: clean_trrec_def bind_err_def set_index_def set_columns_def trrec_names_def
      to_numeric_coerce assign_def Let_def)

lemma tss_column:
  assumes "to_datetime_date pd date = Inr dates"
  shows "\<exists>f. clean_trrec mean64 pd pn date [c0, c1, c2, c3] = Inr f \<and>
     column_of f ''TSS'' =
       Some (Float64 (impute_tss (series_fillna (Some (Fin 0)) (map (coerced pn) c1))
                                 (map (coerced pn) c2)))"
  by (simp add: clean_trrec_Inr [OF assms] column_of_def)


subsection \<open>Imputation of the training-stress-score\<close>



text \<open>
  Claim C8. In a row whose training-stress-score is present after coercion, the cleaned
  score is that value, whatever the row's exertion rating is.
\<close>

theorem tss_present_unchanged:
  assumes "to_datetime_date pd date = Inr dates"
    and "length rpe = length tss" and "i < length tss"
    and "to_numeric_cell Coerce pn (tss ! i) = Inr (Some t)"
  shows "\<exists>f out. clean_trrec mean64 pd pn date [recpts, rpe, tss, beers] = Inr f \<and>
            column_of f ''TSS'' = Some (Float64 out) \<and> out ! i = Some t"
proof -
  let ?rpe = "series_fillna (Some (Fin 0)) (map (coerced pn) rpe)"
  let ?tss = "map (coerced pn) tss"
  have len: "length ?tss = length ?rpe" "i < length ?rpe"
    using assms(2,3) by (simp_all add: series_fillna_def)
  have t: "?tss ! i = Some t"
    using assms(3,4) by (simp add: to_numeric_cell_coerce)
  have "impute_tss ?rpe ?tss ! i = Some t"
    by (simp add: impute_tss_nth [OF len] t)
  then show ?thesis
    using tss_column [OF assms(1), of mean64 pn recpts rpe tss beers] by auto
qed

theorem tss_present_unchanged_witness:
  "\<exists>f out. clean_trrec ieee_mean Some (map_of [(''4'', Fin 4)])
        [''2020-03-01'', ''2020-03-02'']
        [[Num (Fin 50), Str ''n/a''], [Num (Fin 2), Str ''4''], [NaN, Num (Fin 60)],
         [Num (Fin 0), Num (Fin 1)]] = Inr f \<and>
      column_of f ''TSS'' = Some (Float64 out) \<and> out ! 1 = Some (Fin 60)"
  using tss_present_unchanged [of Some "[''2020-03-01'', ''2020-03-02'']"
      "[''2020-03-01'', ''2020-03-02'']" "[Num (Fin 2), Str ''4'']" "[NaN, Num (Fin 60)]" 1
      "map_of [(''4'', Fin 4)]" "Fin 60" ieee_mean "[Num (Fin 50), Str ''n/a'']"
      "[Num (Fin 0), Num (Fin 1)]"]
  by (simp add: bind_err_def)



subsection \<open>Evaluating double-precision arithmetic\<close>

declare bit_length.simps [simp del]

lemma bit_length_0: "bit_length 0 = 0"
  by (simp add: bit_length.simps)

lemma bit_length_1: "bit_length (Suc 0) = Suc 0"
  by (simp add: bit_length.simps)

lemma bit_length_Bit0: "bit_length (numeral (Num.Bit0 k)) = Suc (bit_length (numeral k))"
  by (subst bit_length.simps) simp

lemma bit_length_Bit1: "bit_length (numeral (Num.Bit1 k)) = Suc (bit_length (numeral k))"
  by (subst bit_length.simps) simp

lemma bit_length_One: "bit_length (numeral Num.One) = Suc 0"
  by (subst bit_length.simps) (simp add: bit_length_0)

lemma floor_rat_numeral_div: "\<lfloor>numeral a / numeral b :: rat\<rfloor> = numeral a div numeral b"
  by (metis floor_divide_of_int_eq of_int_numeral)

lemma floor_rat_one_div: "\<lfloor>1 / numeral b :: rat\<rfloor> = 1 div numeral b"
  by (metis floor_divide_of_int_eq of_int_numeral of_int_1)

lemma ceiling_rat_numeral_div: "\<lceil>numeral a / numeral b :: rat\<rceil> = - (- numeral a div numeral b)"
  unfolding ceiling_def by (metis floor_divide_of_int_eq of_int_numeral of_int_minus minus_divide_left)

lemma ceiling_rat_one_div: "\<lceil>1 / numeral b :: rat\<rceil> = - (- 1 div numeral b)"
  unfolding ceiling_def
  by (metis floor_divide_of_int_eq of_int_numeral of_int_minus of_int_1 minus_divide_left)

lemmas ieee_eval =
  ieee_mean_def present_def round64_def ilog2_def pow2_def round_half_even_def Let_def
  bit_length_0 bit_length_1 bit_length_Bit0 bit_length_Bit1 bit_length_One
  floor_rat_numeral_div floor_rat_one_div ceiling_rat_numeral_div ceiling_rat_one_div

text \<open>
  Three means in double precision: an exact one, one that is rounded (\<open>2\<^sup>5\<^sup>3 + 1\<close> is not
  a double and the tie goes to \<open>2\<^sup>5\<^sup>3\<close>), and one that is not a number.
\<close>

lemma ieee_mean_exact_example: "ieee_mean [Some (Fin 80), None, Some (Fin 100)] = Some (Fin 90)"
  by (simp add: ieee_eval)


lemma ieee_mean_nan_example: "ieee_mean [Some PInf, Some MInf, None] = None"
  by (simp add: ieee_eval)

subsection \<open>Filling with the mean\<close>

lemma series_fillna_None: "series_fillna None xs = xs"
  by (induction xs) (auto simp: series_fillna_def split: option.splits)

lemma series_fillna_Some_full: "None \<notin> set (series_fillna (Some q) xs)"
  by (auto simp: series_fillna_def split: option.splits)

lemma series_fillna_full: "None \<notin> set xs \<Longrightarrow> series_fillna v xs = xs"
  by (induction xs) (auto simp: series_fillna_def split: option.splits)

lemma length_series_fillna: "length (series_fillna v xs) = length xs"
  by (simp add: series_fillna_def)

lemma present_Nil_iff: "present xs = [] \<longleftrightarrow> (\<forall>x \<in> set xs. x = None)"
  by (induction xs) (auto simp: present_def split: option.splits)

lemma series_fillna_nth:
  "i < length xs \<Longrightarrow>
   series_fillna v xs ! i = (case xs ! i of None \<Rightarrow> v | Some q \<Rightarrow> Some q)"
  by (simp add: series_fillna_def)

lemma series_fillna_mean_idem:
  "series_fillna (series_mean mean64 (series_fillna (series_mean mean64 xs) xs)) (series_fillna (series_mean mean64 xs) xs)
     = series_fillna (series_mean mean64 xs) xs"
proof (cases "series_mean mean64 xs")
  case None
  then show ?thesis by (simp add: series_fillna_None)
next
  case (Some q)
  then show ?thesis by (simp add: series_fillna_full series_fillna_Some_full)
qed

lemma column_fillna_None: "column_fillna None c = c"
  by (cases c) (auto simp: series_fillna_None intro: map_idI)

lemma column_fillna_Some_again: "column_fillna v (column_fillna (Some q) c) = column_fillna (Some q) c"
  by (cases c) (auto simp: series_fillna_full series_fillna_Some_full)

lemma series_mean_nothing_present: "present xs = [] \<Longrightarrow> series_mean mean64 xs = None"
  by (simp add: series_mean_def)

lemma frame_mean_after_noop_fill:
  "map_of ms n = None \<or> map_of ms n = Some None \<Longrightarrow>
   map_of (frame_mean mean64 (frame_fillna ms cs)) n = map_of (frame_mean mean64 cs) n"
proof (induction mean64 cs rule: frame_mean.induct)
  case (1 mean64)
  then show ?case by (simp add: frame_fillna_def)
next
  case (2 mean64 m xs cs)
  then have "map_of (frame_mean mean64 (frame_fillna ms cs)) n = map_of (frame_mean mean64 cs) n"
    by simp
  with 2(2) show ?case
    by (auto simp: frame_fillna_def series_fillna_None split: option.splits)
next
  case (3 mean64 m xs cs)
  then have "map_of (frame_mean mean64 (frame_fillna ms cs)) n = map_of (frame_mean mean64 cs) n"
    by simp
  then show ?case
    by (auto simp: frame_fillna_def split: option.splits)
qed

lemma frame_fillna_mean_idem:
  "frame_fillna (frame_mean mean64 (frame_fillna (frame_mean mean64 cs) cs)) (frame_fillna (frame_mean mean64 cs) cs)
     = frame_fillna (frame_mean mean64 cs) cs"
proof -
  let ?ms = "frame_mean mean64 cs"
  let ?cs' = "frame_fillna ?ms cs"
  let ?g = "\<lambda>(n, c). case map_of (frame_mean mean64 ?cs') n of None \<Rightarrow> (n, c) | Some v \<Rightarrow> (n, column_fillna v c)"
  have "?g p = p" if "p \<in> set ?cs'" for p
  proof -
    from that obtain n c where nc: "(n, c) \<in> set cs"
      and p: "p = (case map_of ?ms n of None \<Rightarrow> (n, c) | Some v \<Rightarrow> (n, column_fillna v c))"
      by (auto simp: frame_fillna_def)
    show ?thesis
    proof (cases "map_of ?ms n")
      case None
      then have "map_of (frame_mean mean64 ?cs') n = None"
        by (simp add: frame_mean_after_noop_fill)
      with None p show ?thesis by simp
    next
      case (Some v)
      show ?thesis
      proof (cases v)
        case None
        with Some have "map_of (frame_mean mean64 ?cs') n = Some None"
          by (simp add: frame_mean_after_noop_fill)
        with None Some p show ?thesis by (simp add: column_fillna_None)
      next
        case (Some q)
        with \<open>map_of ?ms n = Some v\<close> p show ?thesis
          by (simp add: column_fillna_Some_again split: option.splits)
      qed
    qed
  qed
  then have "map ?g ?cs' = ?cs'" by (intro map_idI) 
  then show ?thesis unfolding frame_fillna_def [of "frame_mean mean64 ?cs'"] .
qed

text \<open>
  Claim C9. Mean imputation is idempotent. For a whole table: \<^verbatim>\<open>df.fillna(df.mean())\<close>
  applied to its own result, with the means computed afresh from that result, changes
  nothing. For one column: \<^verbatim>\<open>s.fillna(s.mean())\<close> applied to its own result changes nothing.
  This holds whatever the double-precision mean of a column is.
\<close>

theorem mean_imputation_idempotent:
  "fillna_mean mean64 (fillna_mean mean64 f) = fillna_mean mean64 f \<and>
   series_fillna (series_mean mean64 (series_fillna (series_mean mean64 xs) xs))
                 (series_fillna (series_mean mean64 xs) xs)
     = series_fillna (series_mean mean64 xs) xs"
  by (simp add: fillna_mean_def frame_fillna_mean_idem series_fillna_mean_idem)

theorem mean_imputation_idempotent_witness:
  "fillna_mean ieee_mean (fillna_mean ieee_mean \<lparr>index = [1::nat, 2, 3],
       columns = [(''Deep'', Float64 [Some (Fin 80), None, Some (Fin 100)]),
                  (''REM'', Float64 [None, None, None])]\<rparr>)
     = fillna_mean ieee_mean \<lparr>index = [1::nat, 2, 3],
       columns = [(''Deep'', Float64 [Some (Fin 80), None, Some (Fin 100)]),
                  (''REM'', Float64 [None, None, None])]\<rparr> \<and>
   series_fillna (series_mean ieee_mean
        (series_fillna (series_mean ieee_mean [Some (Fin 80), None, Some (Fin 100)])
                       [Some (Fin 80), None, Some (Fin 100)]))
       (series_fillna (series_mean ieee_mean [Some (Fin 80), None, Some (Fin 100)])
                      [Some (Fin 80), None, Some (Fin 100)])
     = series_fillna (series_mean ieee_mean [Some (Fin 80), None, Some (Fin 100)])
                     [Some (Fin 80), None, Some (Fin 100)]"
  using mean_imputation_idempotent [of ieee_mean "\<lparr>index = [1::nat, 2, 3],
       columns = [(''Deep'', Float64 [Some (Fin 80), None, Some (Fin 100)]),
                  (''REM'', Float64 [None, None, None])]\<rparr>"
       "[Some (Fin 80), None, Some (Fin 100)]"]
  by simp

subsection \<open>The cleaned Sleep table\<close>

lemma map_of_frame_mean:
  "distinct (map fst cs) \<Longrightarrow>
   map_of (frame_mean mean64 cs) n =
     (case map_of cs n of Some (Float64 xs) \<Rightarrow> Some (series_mean mean64 xs) | _ \<Rightarrow> None)"
proof (induction mean64 cs rule: frame_mean.induct)
  case 1
  then show ?case by simp
next
  case (2 mean64 m xs cs)
  then show ?case by simp
next
  case (3 mean64 m xs cs)
  then have "map_of cs m = None" by (simp add: map_of_eq_None_iff)
  with 3 show ?case by simp
qed

lemma frame_fillna_own_mean_gen:
  assumes d: "distinct (map fst cs)"
  shows "frame_fillna (frame_mean mean64 cs) cs
     = map (\<lambda>(n, c). (n, case c of Float64 xs \<Rightarrow> Float64 (series_fillna (series_mean mean64 xs) xs)
                                | Object ys \<Rightarrow> Object ys)) cs"
  unfolding frame_fillna_def
proof (intro map_cong refl)
  fix p assume p: "p \<in> set cs"
  obtain n c where nc: "p = (n, c)" by (cases p)
  with p d have m: "map_of cs n = Some c" by simp
  show "(case p of (n, c) \<Rightarrow> (case map_of (frame_mean mean64 cs) n of None \<Rightarrow> (n, c)
                            | Some v \<Rightarrow> (n, column_fillna v c)))
      = (case p of (n, c) \<Rightarrow> (n, (case c of Float64 xs \<Rightarrow> Float64 (series_fillna (series_mean mean64 xs) xs)
                                | Object ys \<Rightarrow> Object ys)))"
    by (cases c) (simp_all add: nc map_of_frame_mean [OF d] m)
qed

lemma frame_fillna_own_mean:
  assumes "distinct ns" "length ns = length ms"
  shows "frame_fillna (frame_mean mean64 (zip ns (map Float64 ms))) (zip ns (map Float64 ms))
     = zip ns (map (\<lambda>xs. Float64 (series_fillna (series_mean mean64 xs) xs)) ms)"
proof -
  have "distinct (map fst (zip ns (map Float64 ms)))" using assms by simp
  then show ?thesis
    by (simp add: frame_fillna_own_mean_gen zip_map2 comp_def case_prod_unfold)
qed

lemma length_sleep_names: "length sleep_names = 13"
  by (simp add: sleep_names_def)

lemma distinct_sleep_names: "distinct sleep_names"
  by (simp add: sleep_names_def)

lemma clean_sleep_Inr:
  assumes "to_datetime_date pd date = Inr dates" "length metrics = 13"
  shows "clean_sleep mean64 pd date metrics =
     Inr \<lparr>index = dates,
          columns = zip sleep_names (map (\<lambda>xs. Float64 (series_fillna (series_mean mean64 xs) xs)) metrics)\<rparr>"
  using assms
  by (simp add: clean_sleep_def bind_err_def set_index_def set_columns_def fillna_mean_def
      length_sleep_names frame_fillna_own_mean distinct_sleep_names)





subsection \<open>Coercion and filling in the Training/Recovery cleaner\<close>

lemma coerced_of_Raise_error: "to_numeric_cell Raise pn c = Inl e \<Longrightarrow> coerced pn c = None"
  by (cases c) (auto split: option.splits)

lemma coerced_of_Raise_value: "to_numeric_cell Raise pn c = Inr x \<Longrightarrow> coerced pn c = x"
  by (cases c) (auto split: option.splits)

text \<open>
  Claim C7, as amended. Cleaning the Training/Recovery table never fails on the content
  of a cell: with \<^verbatim>\<open>errors='coerce'\<close> the coercion of the recovery score and of the
  exertion rating returns a column, in which every cell that \<^verbatim>\<open>errors='raise'\<close> would
  reject is missing and every other cell has its number. Afterwards a missing recovery
  score is the mean of the coerced recovery scores as pandas computes it in double
  precision; it stays missing when no recovery score is a number after coercion, or when
  that mean is not a number. A missing exertion rating is 0.
\<close>

theorem coercion_silent_then_filled:
  assumes "to_datetime_date pd date = Inr dates"
  shows "\<exists>f xs ys rp rq.
     clean_trrec mean64 pd pn date [recpts, rpe, tss, beers] = Inr f \<and>
     to_numeric Coerce pn recpts = Inr xs \<and> length xs = length recpts \<and>
     (\<forall>i < length recpts.
        (to_numeric_cell Raise pn (recpts ! i) = Inl CoercionError \<longrightarrow> xs ! i = None) \<and>
        (\<forall>x. to_numeric_cell Raise pn (recpts ! i) = Inr x \<longrightarrow> xs ! i = x)) \<and>
     to_numeric Coerce pn rpe = Inr ys \<and> length ys = length rpe \<and>
     (\<forall>i < length rpe.
        (to_numeric_cell Raise pn (rpe ! i) = Inl CoercionError \<longrightarrow> ys ! i = None) \<and>
        (\<forall>x. to_numeric_cell Raise pn (rpe ! i) = Inr x \<longrightarrow> ys ! i = x)) \<and>
     column_of f ''RecPts'' = Some (Float64 rp) \<and> length rp = length xs \<and>
     (\<forall>i < length xs.
        rp ! i = (case xs ! i of
                    Some q \<Rightarrow> Some q
                  | None \<Rightarrow> if present xs = [] then None else mean64 xs)) \<and>
     column_of f ''RPE'' = Some (Float64 rq) \<and> length rq = length ys \<and>
     (\<forall>i < length ys. rq ! i = (case ys ! i of Some q \<Rightarrow> Some q | None \<Rightarrow> Some (Fin 0)))"
proof -
  let ?xs = "map (coerced pn) recpts"
  let ?ys = "map (coerced pn) rpe"
  let ?rp = "series_fillna (series_mean mean64 ?xs) ?xs"
  let ?rq = "series_fillna (Some (Fin 0)) ?ys"
  let ?f = "\<lparr>index = dates,
          columns = [(''RecPts'', Float64 ?rp), (''RPE'', Float64 ?rq),
                     (''TSS'', Float64 (impute_tss ?rq (map (coerced pn) tss))),
                     (''Beers'', Object beers)]\<rparr>"
  have 1: "clean_trrec mean64 pd pn date [recpts, rpe, tss, beers] = Inr ?f"
    by (rule clean_trrec_Inr [OF assms])
  have 2: "to_numeric Coerce pn recpts = Inr ?xs" "to_numeric Coerce pn rpe = Inr ?ys"
    by (rule to_numeric_coerce)+
  have 3: "\<forall>i < length cs.
        (to_numeric_cell Raise pn (cs ! i) = Inl CoercionError \<longrightarrow> map (coerced pn) cs ! i = None) \<and>
        (\<forall>x. to_numeric_cell Raise pn (cs ! i) = Inr x \<longrightarrow> map (coerced pn) cs ! i = x)" for cs
    by (simp add: coerced_of_Raise_error coerced_of_Raise_value)
  have 4: "column_of ?f ''RecPts'' = Some (Float64 ?rp)" "column_of ?f ''RPE'' = Some (Float64 ?rq)"
    by (simp_all add: column_of_def)
  have 5: "\<forall>i < length ?xs.
        ?rp ! i = (case ?xs ! i of
                    Some q \<Rightarrow> Some q
                  | None \<Rightarrow> if present ?xs = [] then None else mean64 ?xs)"
    by (simp add: series_fillna_nth series_mean_def split: option.splits)
  have 6: "\<forall>i < length ?ys. ?rq ! i = (case ?ys ! i of Some q \<Rightarrow> Some q | None \<Rightarrow> Some (Fin 0))"
    by (simp add: series_fillna_nth split: option.splits)
  have 7: "length ?xs = length recpts" "length ?ys = length rpe"
    "length ?rp = length ?xs" "length ?rq = length ?ys"
    by (simp_all add: length_series_fillna)
  show ?thesis
    using 1 2 3 [of recpts] 3 [of rpe] 4 5 6 7 by blast
qed

theorem coercion_silent_then_filled_witness:
  "\<exists>f rp rq.
     clean_trrec ieee_mean Some (map_of [(''4'', Fin 4)]) [''2020-03-01'', ''2020-03-02'', ''2020-03-03'']
        [[Num (Fin 80), Str ''n/a'', Num (Fin 100)], [Str ''4'', Str ''rest'', NaN],
         [Num (Fin 40), NaN, NaN], [Num (Fin 0), Num (Fin 1), NaN]] = Inr f \<and>
     column_of f ''RecPts'' = Some (Float64 rp) \<and> rp ! 1 = Some (Fin 90) \<and>
     column_of f ''RPE'' = Some (Float64 rq) \<and>
     rq ! 0 = Some (Fin 4) \<and> rq ! 1 = Some (Fin 0) \<and> rq ! 2 = Some (Fin 0)"
proof -
  have h: "to_datetime_date Some [''2020-03-01'', ''2020-03-02'', ''2020-03-03''] = Inr [''2020-03-01'', ''2020-03-02'', ''2020-03-03'']"
    by (simp add: bind_err_def)
  from coercion_silent_then_filled [OF h, of ieee_mean "map_of [(''4'', Fin 4)]"
      "[Num (Fin 80), Str ''n/a'', Num (Fin 100)]" "[Str ''4'', Str ''rest'', NaN]"
      "[Num (Fin 40), NaN, NaN]" "[Num (Fin 0), Num (Fin 1), NaN]"]
  obtain f xs ys rp rq where
    f: "clean_trrec ieee_mean Some (map_of [(''4'', Fin 4)]) [''2020-03-01'', ''2020-03-02'', ''2020-03-03'']
        [[Num (Fin 80), Str ''n/a'', Num (Fin 100)], [Str ''4'', Str ''rest'', NaN],
         [Num (Fin 40), NaN, NaN], [Num (Fin 0), Num (Fin 1), NaN]] = Inr f"
    and xs: "to_numeric Coerce (map_of [(''4'', Fin 4)]) [Num (Fin 80), Str ''n/a'', Num (Fin 100)] = Inr xs"
    and ys: "to_numeric Coerce (map_of [(''4'', Fin 4)]) [Str ''4'', Str ''rest'', NaN] = Inr ys"
    and rp: "column_of f ''RecPts'' = Some (Float64 rp)"
        "\<forall>i < length xs.
          rp ! i = (case xs ! i of
                    Some q \<Rightarrow> Some q
                  | None \<Rightarrow> if present xs = [] then None else ieee_mean xs)"
    and rq: "column_of f ''RPE'' = Some (Float64 rq)"
        "\<forall>i < length ys. rq ! i = (case ys ! i of Some q \<Rightarrow> Some q | None \<Rightarrow> Some (Fin 0))"
    by blast
  from xs have xs': "xs = [Some (Fin 80), None, Some (Fin 100)]" by (simp add: bind_err_def)
  from ys have ys': "ys = [Some (Fin 4), None, None]" by (simp add: bind_err_def)
  have "rp ! 1 = Some (Fin 90)"
    using rp(2) [rule_format, of 1]
    by (simp add: xs' ieee_mean_exact_example) (simp add: present_def)
  moreover have "rq ! 0 = Some (Fin 4)" "rq ! 1 = Some (Fin 0)" "rq ! 2 = Some (Fin 0)"
    using rq(2) [rule_format, of 0] rq(2) [rule_format, of 1] rq(2) [rule_format, of 2]
    by (simp_all add: ys')
  ultimately show ?thesis using f rp(1) rq(1) by blast
qed

text \<open>
  Claim C7 as stated fails: when no recovery score is a number after coercion there is
  no mean to fill with, and both recovery scores stay missing.
\<close>

theorem recovery_score_all_text_counterexample:
  "clean_trrec ieee_mean Some (map_of [(''4'', Fin 4)]) [''2020-03-01'', ''2020-03-02'']
       [[Str ''a'', Str ''b''], [Num (Fin 2), Num (Fin 4)], [Num (Fin 40), Num (Fin 55)],
        [Num (Fin 1), Num (Fin 0)]]
     = Inr \<lparr>index = [''2020-03-01'', ''2020-03-02''],
            columns = [(''RecPts'', Float64 [None, None]),
                       (''RPE'', Float64 [Some (Fin 2), Some (Fin 4)]),
                       (''TSS'', Float64 [Some (Fin 40), Some (Fin 55)]),
                       (''Beers'', Object [Num (Fin 1), Num (Fin 0)])]\<rparr>"
  by (simp add: clean_trrec_def bind_err_def set_index_def set_columns_def trrec_names_def
      assign_def Let_def series_fillna_def series_mean_def present_def impute_tss_def np_where_def
      isnull_def np_select_def conditions_def values_list_def copyto_def series_eq_def between_def
      series_gt_def lt64_def)

subsection \<open>Which errors the cleaners can raise\<close>

lemma impute_tss_full: "None \<notin> set (impute_tss rpe tss)"
proof
  assume "None \<in> set (impute_tss rpe tss)"
  then obtain i where i: "i < length (impute_tss rpe tss)" and n: "impute_tss rpe tss ! i = None"
    by (metis in_set_conv_nth)
  from i have "i < length tss"
    "i < length (np_select (length rpe) (conditions rpe) values_list (Fin 0))"
    by (simp_all add: impute_tss_def np_where_def isnull_def)
  with n show False
    by (simp add: impute_tss_def np_where_def isnull_def split: if_splits)
qed

lemma to_datetime_date_error: "to_datetime_date pd ss = Inl e \<Longrightarrow> e = DateParseError"
  by (induction ss arbitrary: e) (auto simp: bind_err_def split: option.splits sum.splits)

lemma clean_sleep_error:
  "clean_sleep mean64 pd date metrics = Inl e \<Longrightarrow> e = DateParseError \<or> e = LengthMismatch"
  by (auto simp: clean_sleep_def bind_err_def set_index_def set_columns_def
      dest: to_datetime_date_error split: sum.splits if_splits)

lemma clean_trrec_error:
  "clean_trrec mean64 pd pn date metrics = Inl e \<Longrightarrow> e = DateParseError \<or> e = LengthMismatch"
  by (auto simp: clean_trrec_def bind_err_def set_index_def set_columns_def to_numeric_coerce Let_def
      dest: to_datetime_date_error split: sum.splits if_splits)

lemma pipeline_error:
  "pipeline fm sm pd pn sdate smetrics tdate tmetrics = Inl e \<Longrightarrow>
   e = DateParseError \<or> e = LengthMismatch"
  by (auto simp: pipeline_def bind_err_def dest: clean_sleep_error clean_trrec_error split: sum.splits)

lemma length4E:
  assumes "length xs = 4"
  obtains a b c d where "xs = [a, b, c, d]"
proof -
  from assms obtain a b c d where "xs = [a, b, c, d]"
    by (auto simp: length_Suc_conv eval_nat_numeral)
  then show ?thesis by (rule that)
qed

text \<open>
  Claim C2, as amended. The notebook sets the row key with \<^verbatim>\<open>verify_integrity\<close> left at
  its default, so no uniqueness check is made: neither cleaner and not the pipeline ever
  fails with \<open>DuplicateKeyError\<close>, and whenever the dates parse and the tables have their
  thirteen and four columns, both cleaners succeed with the parsed dates as row keys, in
  order and with repetitions kept, and the pipeline goes on to the merge.
\<close>

theorem duplicate_dates_not_checked:
  "clean_sleep fm pd sdate smetrics \<noteq> Inl DuplicateKeyError \<and>
   clean_trrec sm pd pn tdate tmetrics \<noteq> Inl DuplicateKeyError \<and>
   pipeline fm sm pd pn sdate smetrics tdate tmetrics \<noteq> Inl DuplicateKeyError \<and>
   (to_datetime_date pd sdate = Inr sdates \<and> length smetrics = 13 \<and>
    to_datetime_date pd tdate = Inr tdates \<and> length tmetrics = 4 \<longrightarrow>
    (\<exists>S T. clean_sleep fm pd sdate smetrics = Inr S \<and> index S = sdates \<and>
           clean_trrec sm pd pn tdate tmetrics = Inr T \<and> index T = tdates \<and>
           pipeline fm sm pd pn sdate smetrics tdate tmetrics = Inr (merge S T)))"
proof (intro conjI impI)
  show "clean_sleep fm pd sdate smetrics \<noteq> Inl DuplicateKeyError"
    using clean_sleep_error [of fm pd sdate smetrics DuplicateKeyError] by auto
  show "clean_trrec sm pd pn tdate tmetrics \<noteq> Inl DuplicateKeyError"
    using clean_trrec_error [of sm pd pn tdate tmetrics DuplicateKeyError] by auto
  show "pipeline fm sm pd pn sdate smetrics tdate tmetrics \<noteq> Inl DuplicateKeyError"
    using pipeline_error [of fm sm pd pn sdate smetrics tdate tmetrics DuplicateKeyError] by auto
next
  assume a: "to_datetime_date pd sdate = Inr sdates \<and> length smetrics = 13 \<and>
    to_datetime_date pd tdate = Inr tdates \<and> length tmetrics = 4"
  then obtain c0 c1 c2 c3 where t: "tmetrics = [c0, c1, c2, c3]"
    by (auto elim: length4E)
  from a have s: "clean_sleep fm pd sdate smetrics =
     Inr \<lparr>index = sdates,
          columns = zip sleep_names
            (map (\<lambda>xs. Float64 (series_fillna (series_mean fm xs) xs)) smetrics)\<rparr>"
    by (simp add: clean_sleep_Inr)
  from a have "to_datetime_date pd tdate = Inr tdates" by simp
  note r = clean_trrec_Inr [OF this, of sm pn c0 c1 c2 c3]
  show "\<exists>S T. clean_sleep fm pd sdate smetrics = Inr S \<and> index S = sdates \<and>
           clean_trrec sm pd pn tdate tmetrics = Inr T \<and> index T = tdates \<and>
           pipeline fm sm pd pn sdate smetrics tdate tmetrics = Inr (merge S T)"
    unfolding t pipeline_def s r by (simp add: bind_err_def)
qed

theorem duplicate_dates_not_checked_witness:
  "\<exists>S T.
     clean_sleep ieee_mean Some [''2020-03-01'', ''2020-03-01'']
      [[Some (Fin 1), Some (Fin 2)], [Some (Fin 1), Some (Fin 2)], [Some (Fin 1), Some (Fin 2)],
       [Some (Fin 1), Some (Fin 2)], [Some (Fin 1), Some (Fin 2)], [Some (Fin 1), Some (Fin 2)],
       [Some (Fin 1), Some (Fin 2)], [Some (Fin 1), Some (Fin 2)], [Some (Fin 1), Some (Fin 2)],
       [Some (Fin 1), Some (Fin 2)], [Some (Fin 1), Some (Fin 2)], [Some (Fin 1), Some (Fin 2)],
       [Some (Fin 1), Some (Fin 2)]] = Inr S \<and>
     index S = [''2020-03-01'', ''2020-03-01''] \<and>
     clean_trrec ieee_mean Some (map_of [(''4'', Fin 4)]) [''2020-03-01'', ''2020-03-01'']
       [[Num (Fin 50), Num (Fin 60)], [Num (Fin 2), Num (Fin 4)], [Num (Fin 40), Num (Fin 55)],
        [Num (Fin 1), Num (Fin 0)]] = Inr T \<and>
     index T = [''2020-03-01'', ''2020-03-01''] \<and>
     pipeline ieee_mean ieee_mean Some (map_of [(''4'', Fin 4)]) [''2020-03-01'', ''2020-03-01'']
      [[Some (Fin 1), Some (Fin 2)], [Some (Fin 1), Some (Fin 2)], [Some (Fin 1), Some (Fin 2)],
       [Some (Fin 1), Some (Fin 2)], [Some (Fin 1), Some (Fin 2)], [Some (Fin 1), Some (Fin 2)],
       [Some (Fin 1), Some (Fin 2)], [Some (Fin 1), Some (Fin 2)], [Some (Fin 1), Some (Fin 2)],
       [Some (Fin 1), Some (Fin 2)], [Some (Fin 1), Some (Fin 2)], [Some (Fin 1), Some (Fin 2)],
       [Some (Fin 1), Some (Fin 2)]]
       [''2020-03-01'', ''2020-03-01'']
       [[Num (Fin 50), Num (Fin 60)], [Num (Fin 2), Num (Fin 4)], [Num (Fin 40), Num (Fin 55)],
        [Num (Fin 1), Num (Fin 0)]] = Inr (merge S T)"
  using duplicate_dates_not_checked [of ieee_mean Some "[''2020-03-01'', ''2020-03-01'']"
      "[[Some (Fin 1), Some (Fin 2)], [Some (Fin 1), Some (Fin 2)], [Some (Fin 1), Some (Fin 2)],
       [Some (Fin 1), Some (Fin 2)], [Some (Fin 1), Some (Fin 2)], [Some (Fin 1), Some (Fin 2)],
       [Some (Fin 1), Some (Fin 2)], [Some (Fin 1), Some (Fin 2)], [Some (Fin 1), Some (Fin 2)],
       [Some (Fin 1), Some (Fin 2)], [Some (Fin 1), Some (Fin 2)], [Some (Fin 1), Some (Fin 2)],
       [Some (Fin 1), Some (Fin 2)]]"
      ieee_mean "map_of [(''4'', Fin 4)]" "[''2020-03-01'', ''2020-03-01'']"
      "[[Num (Fin 50), Num (Fin 60)], [Num (Fin 2), Num (Fin 4)], [Num (Fin 40), Num (Fin 55)],
        [Num (Fin 1), Num (Fin 0)]]"
      "[''2020-03-01'', ''2020-03-01'']" "[''2020-03-01'', ''2020-03-01'']"]
  by (simp add: bind_err_def)

text \<open>
  Claim C2 as stated fails: a Training/Recovery table whose two rows share a date is
  cleaned without any error.
\<close>

theorem duplicate_date_accepted_counterexample:
  "clean_trrec ieee_mean Some (map_of [(''4'', Fin 4)]) [''2020-03-01'', ''2020-03-01'']
       [[Num (Fin 50), Num (Fin 60)], [Num (Fin 2), Num (Fin 4)], [Num (Fin 40), Num (Fin 55)],
        [Num (Fin 1), Num (Fin 0)]]
     = Inr \<lparr>index = [''2020-03-01'', ''2020-03-01''],
            columns = [(''RecPts'', Float64 [Some (Fin 50), Some (Fin 60)]),
                       (''RPE'', Float64 [Some (Fin 2), Some (Fin 4)]),
                       (''TSS'', Float64 [Some (Fin 40), Some (Fin 55)]),
                       (''Beers'', Object [Num (Fin 1), Num (Fin 0)])]\<rparr>"
  by (simp add: clean_trrec_def bind_err_def set_index_def set_columns_def trrec_names_def
      assign_def Let_def series_fillna_def series_mean_def present_def impute_tss_def np_where_def
      isnull_def np_select_def conditions_def values_list_def copyto_def series_eq_def between_def
      series_gt_def lt64_def)

subsection \<open>Missing values after cleaning\<close>

text \<open>
  Claim C1 as stated fails: the alcohol count is not touched by the cleaner, so a
  missing alcohol count in one row stays missing although the column has a value in
  another row.
\<close>

theorem cleaned_beers_missing_counterexample:
  "clean_trrec ieee_mean Some (map_of [(''4'', Fin 4)]) [''2020-03-01'', ''2020-03-02'']
       [[Num (Fin 50), Num (Fin 60)], [Num (Fin 2), Num (Fin 4)], [Num (Fin 40), Num (Fin 55)],
        [Num (Fin 1), NaN]]
     = Inr \<lparr>index = [''2020-03-01'', ''2020-03-02''],
            columns = [(''RecPts'', Float64 [Some (Fin 50), Some (Fin 60)]),
                       (''RPE'', Float64 [Some (Fin 2), Some (Fin 4)]),
                       (''TSS'', Float64 [Some (Fin 40), Some (Fin 55)]),
                       (''Beers'', Object [Num (Fin 1), NaN])]\<rparr>"
  by (simp add: clean_trrec_def bind_err_def set_index_def set_columns_def trrec_names_def
      assign_def Let_def series_fillna_def series_mean_def present_def impute_tss_def np_where_def
      isnull_def np_select_def conditions_def values_list_def copyto_def series_eq_def between_def
      series_gt_def lt64_def)

text \<open>
  Claim C1, as amended. After cleaning, each of the thirteen Sleep columns whose mean, as
  pandas computes it in double precision, is a number has no missing value, and a Sleep
  column whose mean is not a number is left as it was; the mean is not a number when the
  column has no present value (and can fail to be one otherwise, as for a column that
  holds both infinities). The same holds of the recovery score and the mean of its
  coerced values. Exertion rating and training-stress-score never have a missing value.
  The alcohol count is the source column unchanged, missing values included.
\<close>

theorem cleaned_columns_without_missing:
  assumes "to_datetime_date pd sdate = Inr sdates" and "length smetrics = 13"
    and "to_datetime_date pd tdate = Inr tdates"
  shows "\<exists>S T xs rp rq ts.
     clean_sleep fm pd sdate smetrics = Inr S \<and> map fst (columns S) = sleep_names \<and>
     (\<forall>j<13. \<exists>out. column_of S (sleep_names ! j) = Some (Float64 out) \<and>
         length out = length (smetrics ! j) \<and>
         (series_mean fm (smetrics ! j) \<noteq> None \<longrightarrow> None \<notin> set out) \<and>
         (series_mean fm (smetrics ! j) = None \<longrightarrow> out = smetrics ! j) \<and>
         (present (smetrics ! j) = [] \<longrightarrow> series_mean fm (smetrics ! j) = None)) \<and>
     clean_trrec sm pd pn tdate [recpts, rpe, tss, beers] = Inr T \<and>
     map fst (columns T) = trrec_names \<and>
     to_numeric Coerce pn recpts = Inr xs \<and>
     column_of T ''RecPts'' = Some (Float64 rp) \<and>
     (series_mean sm xs \<noteq> None \<longrightarrow> None \<notin> set rp) \<and>
     (series_mean sm xs = None \<longrightarrow> rp = xs) \<and>
     (present xs = [] \<longrightarrow> series_mean sm xs = None) \<and>
     column_of T ''RPE'' = Some (Float64 rq) \<and> None \<notin> set rq \<and>
     column_of T ''TSS'' = Some (Float64 ts) \<and> None \<notin> set ts \<and>
     column_of T ''Beers'' = Some (Object beers)"
proof -
  let ?xs = "map (coerced pn) recpts"
  let ?rp = "series_fillna (series_mean sm ?xs) ?xs"
  let ?rq = "series_fillna (Some (Fin 0)) (map (coerced pn) rpe)"
  let ?ts = "impute_tss ?rq (map (coerced pn) tss)"
  let ?T = "\<lparr>index = tdates,
          columns = [(''RecPts'', Float64 ?rp), (''RPE'', Float64 ?rq),
                     (''TSS'', Float64 ?ts), (''Beers'', Object beers)]\<rparr>"
  let ?S = "\<lparr>index = sdates,
          columns = zip sleep_names
            (map (\<lambda>xs. Float64 (series_fillna (series_mean fm xs) xs)) smetrics)\<rparr>"
  have fill1: "series_mean m ys \<noteq> None \<longrightarrow> None \<notin> set (series_fillna (series_mean m ys) ys)"
    for m ys
    by (auto simp: series_fillna_Some_full)
  have fill2: "series_mean m ys = None \<longrightarrow> series_fillna (series_mean m ys) ys = ys" for m ys
    by (auto simp: series_fillna_None)
  have fill3: "present ys = [] \<longrightarrow> series_mean m ys = None" for m ys
    by (simp add: series_mean_nothing_present)
  have S: "clean_sleep fm pd sdate smetrics = Inr ?S"
    using assms(1,2) by (rule clean_sleep_Inr)
  have S1: "map fst (columns ?S) = sleep_names"
    using assms(2) by (simp add: length_sleep_names)
  have S2: "\<exists>out. column_of ?S (sleep_names ! j) = Some (Float64 out) \<and>
         length out = length (smetrics ! j) \<and>
         (series_mean fm (smetrics ! j) \<noteq> None \<longrightarrow> None \<notin> set out) \<and>
         (series_mean fm (smetrics ! j) = None \<longrightarrow> out = smetrics ! j) \<and>
         (present (smetrics ! j) = [] \<longrightarrow> series_mean fm (smetrics ! j) = None)" if "j < 13" for j
  proof -
    have c: "column_of ?S (sleep_names ! j)
        = Some (Float64 (series_fillna (series_mean fm (smetrics ! j)) (smetrics ! j)))"
      using that assms(2)
      by (simp add: column_of_def map_of_zip_nth length_sleep_names distinct_sleep_names)
    show ?thesis
      using c fill1 [of fm "smetrics ! j"] fill2 [of fm "smetrics ! j"] fill3 [of "smetrics ! j" fm]
      by (simp add: length_series_fillna)
  qed
  then have S2': "\<forall>j<13. \<exists>out. column_of ?S (sleep_names ! j) = Some (Float64 out) \<and>
         length out = length (smetrics ! j) \<and>
         (series_mean fm (smetrics ! j) \<noteq> None \<longrightarrow> None \<notin> set out) \<and>
         (series_mean fm (smetrics ! j) = None \<longrightarrow> out = smetrics ! j) \<and>
         (present (smetrics ! j) = [] \<longrightarrow> series_mean fm (smetrics ! j) = None)"
    by blast
  have T: "clean_trrec sm pd pn tdate [recpts, rpe, tss, beers] = Inr ?T"
    by (rule clean_trrec_Inr [OF assms(3)])
  have T1: "map fst (columns ?T) = trrec_names"
    by (simp add: trrec_names_def)
  have T2: "column_of ?T ''RecPts'' = Some (Float64 ?rp)" "column_of ?T ''RPE'' = Some (Float64 ?rq)"
    "column_of ?T ''TSS'' = Some (Float64 ?ts)" "column_of ?T ''Beers'' = Some (Object beers)"
    by (simp_all add: column_of_def)
  have T3: "to_numeric Coerce pn recpts = Inr ?xs"
    by (rule to_numeric_coerce)
  have T4: "None \<notin> set ?rq" by (rule series_fillna_Some_full)
  have T5: "None \<notin> set ?ts" by (rule impute_tss_full)
  show ?thesis
    apply (rule exI [of _ ?S], rule exI [of _ ?T], rule exI [of _ ?xs])
    apply (rule exI [of _ ?rp], rule exI [of _ ?rq], rule exI [of _ ?ts])
    using S S1 S2' T T1 T2 T3 fill1 [of sm ?xs] fill2 [of sm ?xs] fill3 [of ?xs sm] T4 T5
    by (intro conjI) assumption+
qed

theorem cleaned_columns_without_missing_witness:
  "\<exists>S T out rp rq ts.
     clean_sleep ieee_mean Some [''2020-03-01'', ''2020-03-02'', ''2020-03-03'']
        [[Some (Fin 1), Some (Fin 2), Some (Fin 3)], [Some (Fin 1), Some (Fin 2), Some (Fin 3)],
         [Some (Fin 1), Some (Fin 2), Some (Fin 3)], [Some (Fin 1), Some (Fin 2), Some (Fin 3)],
         [Some (Fin 80), None, Some (Fin 100)], [None, None, None],
         [Some (Fin 1), Some (Fin 2), Some (Fin 3)], [Some (Fin 1), Some (Fin 2), Some (Fin 3)],
         [Some (Fin 1), Some (Fin 2), Some (Fin 3)], [Some (Fin 1), Some (Fin 2), Some (Fin 3)],
         [Some (Fin 1), Some (Fin 2), Some (Fin 3)], [Some (Fin 1), Some (Fin 2), Some (Fin 3)],
         [Some (Fin 1), Some (Fin 2), Some (Fin 3)]] = Inr S \<and>
     column_of S ''Deep'' = Some (Float64 out) \<and> None \<notin> set out \<and>
     clean_trrec ieee_mean Some (map_of [(''4'', Fin 4)]) [''2020-03-01'', ''2020-03-02'', ''2020-03-03'']
        [[Num (Fin 80), Str ''n/a'', Num (Fin 100)], [Num (Fin 2), Str ''4'', NaN],
         [Num (Fin 40), NaN, Num (Fin 70)], [Num (Fin 0), NaN, Num (Fin 0)]] = Inr T \<and>
     column_of T ''RecPts'' = Some (Float64 rp) \<and> None \<notin> set rp \<and>
     column_of T ''RPE'' = Some (Float64 rq) \<and> None \<notin> set rq \<and>
     column_of T ''TSS'' = Some (Float64 ts) \<and> None \<notin> set ts \<and>
     column_of T ''Beers'' = Some (Object [Num (Fin 0), NaN, Num (Fin 0)])"
proof -
  let ?M = "[[Some (Fin 1), Some (Fin 2), Some (Fin 3)], [Some (Fin 1), Some (Fin 2), Some (Fin 3)],
         [Some (Fin 1), Some (Fin 2), Some (Fin 3)], [Some (Fin 1), Some (Fin 2), Some (Fin 3)],
         [Some (Fin 80), None, Some (Fin 100)], [None, None, None],
         [Some (Fin 1), Some (Fin 2), Some (Fin 3)], [Some (Fin 1), Some (Fin 2), Some (Fin 3)],
         [Some (Fin 1), Some (Fin 2), Some (Fin 3)], [Some (Fin 1), Some (Fin 2), Some (Fin 3)],
         [Some (Fin 1), Some (Fin 2), Some (Fin 3)], [Some (Fin 1), Some (Fin 2), Some (Fin 3)],
         [Some (Fin 1), Some (Fin 2), Some (Fin 3)]]"
  let ?rec = "[Num (Fin 80), Str ''n/a'', Num (Fin 100)]"
  have s: "to_datetime_date Some [''2020-03-01'', ''2020-03-02'', ''2020-03-03''] = Inr [''2020-03-01'', ''2020-03-02'', ''2020-03-03'']"
    by (simp add: bind_err_def)
  have m: "length ?M = 13" by simp
  have mean: "series_mean ieee_mean [Some (Fin 80), None, Some (Fin 100)] = Some (Fin 90)"
    by (simp add: series_mean_def ieee_mean_exact_example) (simp add: present_def)
  from cleaned_columns_without_missing [OF s m s, of ieee_mean ieee_mean "map_of [(''4'', Fin 4)]"
      ?rec "[Num (Fin 2), Str ''4'', NaN]" "[Num (Fin 40), NaN, Num (Fin 70)]"
      "[Num (Fin 0), NaN, Num (Fin 0)]"]
  obtain S T xs rp rq ts where
    S: "clean_sleep ieee_mean Some [''2020-03-01'', ''2020-03-02'', ''2020-03-03''] ?M = Inr S"
    and cols: "\<forall>j<13. \<exists>out. column_of S (sleep_names ! j) = Some (Float64 out) \<and>
         length out = length (?M ! j) \<and>
         (series_mean ieee_mean (?M ! j) \<noteq> None \<longrightarrow> None \<notin> set out) \<and>
         (series_mean ieee_mean (?M ! j) = None \<longrightarrow> out = ?M ! j) \<and>
         (present (?M ! j) = [] \<longrightarrow> series_mean ieee_mean (?M ! j) = None)"
    and T: "clean_trrec ieee_mean Some (map_of [(''4'', Fin 4)]) [''2020-03-01'', ''2020-03-02'', ''2020-03-03'']
        [?rec, [Num (Fin 2), Str ''4'', NaN], [Num (Fin 40), NaN, Num (Fin 70)],
         [Num (Fin 0), NaN, Num (Fin 0)]] = Inr T"
    and xs: "to_numeric Coerce (map_of [(''4'', Fin 4)]) ?rec = Inr xs"
    and rp: "column_of T ''RecPts'' = Some (Float64 rp)"
       "series_mean ieee_mean xs \<noteq> None \<longrightarrow> None \<notin> set rp"
    and rest: "column_of T ''RPE'' = Some (Float64 rq)" "None \<notin> set rq"
       "column_of T ''TSS'' = Some (Float64 ts)" "None \<notin> set ts"
       "column_of T ''Beers'' = Some (Object [Num (Fin 0), NaN, Num (Fin 0)])"
    by blast
  from cols [rule_format, of 4] obtain out where
    out: "column_of S ''Deep'' = Some (Float64 out)" "None \<notin> set out"
    by (auto simp: sleep_names_def mean)
  from xs have "xs = [Some (Fin 80), None, Some (Fin 100)]" by (simp add: bind_err_def)
  with rp(2) have "None \<notin> set rp" by (simp add: mean)
  with S T out rp(1) rest show ?thesis by blast
qed

subsection \<open>The merge\<close>

lemma set_factorize: "set (factorize seen ks) = set seen \<union> set ks"
  by (induction ks arbitrary: seen) auto

lemma distinct_factorize: "distinct seen \<Longrightarrow> distinct (factorize seen ks)"
  by (induction ks arbitrary: seen) auto

lemma length_positions: "length (positions k ks) = count_list ks k"
proof -
  have "filter ((=) k) ks = filter ((=) k) (map (\<lambda>i. ks ! i) [0..<length ks])"
    by (simp add: map_nth)
  also have "\<dots> = map (\<lambda>i. ks ! i) (filter (\<lambda>i. k = ks ! i) [0..<length ks])"
    by (simp add: filter_map comp_def)
  finally have "length (filter ((=) k) ks) = length (filter (\<lambda>i. k = ks ! i) [0..<length ks])"
    by simp
  also have "(\<lambda>i. k = ks ! i) = (\<lambda>i. ks ! i = k)"
    by auto
  finally show ?thesis
    by (simp add: positions_def count_list_eq_length_filter)
qed

lemma positions_key: "i \<in> set (positions k ks) \<Longrightarrow> ks ! i = k"
  by (simp add: positions_def)

lemma map_constant: "(\<And>p. p \<in> set ps \<Longrightarrow> f p = k) \<Longrightarrow> map f ps = replicate (length ps) k"
  by (induction ps) auto

lemma keys_of_product:
  "map (\<lambda>(i, j). lk ! i) (List.product (positions k lk) (positions k rk))
     = replicate (count_list lk k * count_list rk k) k"
proof -
  have "map (\<lambda>(i, j). lk ! i) (List.product (positions k lk) (positions k rk))
      = replicate (length (List.product (positions k lk) (positions k rk))) k"
    by (rule map_constant) (auto simp: positions_key)
  then show ?thesis by (simp add: length_positions)
qed

lemma index_merge:
  "index (merge L R)
     = concat (map (\<lambda>k. replicate (count_list (index L) k * count_list (index R) k) k)
                   (factorize [] (index L @ index R)))"
  by (simp add: merge_def Let_def inner_join_def map_concat comp_def keys_of_product)

lemma set_index_merge: "set (index (merge L R)) = set (index L) \<inter> set (index R)"
  by (auto simp: index_merge set_factorize count_list_0_iff)

lemma count_list_distinct: "distinct xs \<Longrightarrow> count_list xs x = (if x \<in> set xs then 1 else 0)"
  by (induction xs) auto

lemma concat_map_if_single: "concat (map (\<lambda>k. if P k then [k] else []) xs) = filter P xs"
  by (induction xs) auto

lemma index_merge_distinct:
  assumes "distinct (index L)" "distinct (index R)"
  shows "index (merge L R)
     = filter (\<lambda>k. k \<in> set (index L) \<and> k \<in> set (index R)) (factorize [] (index L @ index R))"
proof -
  have "(\<lambda>k. replicate (count_list (index L) k * count_list (index R) k) k)
      = (\<lambda>k. if k \<in> set (index L) \<and> k \<in> set (index R) then [k] else [])"
    using assms by (auto simp: count_list_distinct fun_eq_iff)
  then show ?thesis by (simp add: index_merge concat_map_if_single)
qed

text \<open>
  Claim C4, as amended. The row keys of the merged table are exactly the dates that
  occur in both tables. When the dates of each table are unique, every such date occurs
  exactly once in the merged table, and the number of merged rows is the number of dates
  present in both tables.
\<close>

theorem merge_is_inner_join_on_date:
  "(d \<in> set (index (merge L R)) \<longleftrightarrow> d \<in> set (index L) \<and> d \<in> set (index R)) \<and>
   (distinct (index L) \<and> distinct (index R) \<longrightarrow>
      (d \<in> set (index L) \<and> d \<in> set (index R) \<longrightarrow> count_list (index (merge L R)) d = 1) \<and>
      length (index (merge L R)) = card (set (index L) \<inter> set (index R)))"
proof (intro conjI impI)
  show "d \<in> set (index (merge L R)) \<longleftrightarrow> d \<in> set (index L) \<and> d \<in> set (index R)"
    by (simp add: set_index_merge)
next
  assume u: "distinct (index L) \<and> distinct (index R)"
  then have e: "index (merge L R)
     = filter (\<lambda>k. k \<in> set (index L) \<and> k \<in> set (index R)) (factorize [] (index L @ index R))"
    by (simp add: index_merge_distinct)
  have dm: "distinct (index (merge L R))"
    unfolding e by (simp add: distinct_factorize)
  show "length (index (merge L R)) = card (set (index L) \<inter> set (index R))"
    using distinct_card [OF dm] by (simp add: set_index_merge)
  assume "d \<in> set (index L) \<and> d \<in> set (index R)"
  then have "d \<in> set (index (merge L R))" by (simp add: set_index_merge)
  with dm show "count_list (index (merge L R)) d = 1"
    by (simp add: count_list_distinct)
qed

theorem merge_is_inner_join_on_date_witness:
  "(2 \<in> set (index (merge
        \<lparr>index = [1::nat, 2, 3], columns = [(''Deep'', Float64 [Some (Fin 4), Some (Fin 5), Some (Fin 6)])]\<rparr>
        \<lparr>index = [2, 3, 4], columns = [(''TSS'', Float64 [Some (Fin 40), Some (Fin 50), Some (Fin 60)])]\<rparr>))) \<and>
   count_list (index (merge
        \<lparr>index = [1::nat, 2, 3], columns = [(''Deep'', Float64 [Some (Fin 4), Some (Fin 5), Some (Fin 6)])]\<rparr>
        \<lparr>index = [2, 3, 4], columns = [(''TSS'', Float64 [Some (Fin 40), Some (Fin 50), Some (Fin 60)])]\<rparr>)) 2 = 1 \<and>
   length (index (merge
        \<lparr>index = [1::nat, 2, 3], columns = [(''Deep'', Float64 [Some (Fin 4), Some (Fin 5), Some (Fin 6)])]\<rparr>
        \<lparr>index = [2, 3, 4], columns = [(''TSS'', Float64 [Some (Fin 40), Some (Fin 50), Some (Fin 60)])]\<rparr>))
     = card (set [1::nat, 2, 3] \<inter> set [2, 3, 4])"
  using merge_is_inner_join_on_date [of 2
      "\<lparr>index = [1::nat, 2, 3], columns = [(''Deep'', Float64 [Some (Fin 4), Some (Fin 5), Some (Fin 6)])]\<rparr>"
      "\<lparr>index = [2, 3, 4], columns = [(''TSS'', Float64 [Some (Fin 40), Some (Fin 50), Some (Fin 60)])]\<rparr>"]
  by simp

text \<open>
  Claim C4 as stated fails without unique dates: a Sleep table with two rows of one date
  and a Training/Recovery table with one row of that date merge into two rows, while one
  date is present in both tables.
\<close>

theorem row_count_with_repeated_date_counterexample:
  "map_sum id index
     (pipeline ieee_mean ieee_mean Some (map_of [(''4'', Fin 4)]) [''2020-03-01'', ''2020-03-01'']
        [[Some (Fin 1), Some (Fin 2)], [Some (Fin 1), Some (Fin 2)],
         [Some (Fin 1), Some (Fin 2)], [Some (Fin 1), Some (Fin 2)],
         [Some (Fin 1), Some (Fin 2)], [Some (Fin 1), Some (Fin 2)],
         [Some (Fin 1), Some (Fin 2)], [Some (Fin 1), Some (Fin 2)],
         [Some (Fin 1), Some (Fin 2)], [Some (Fin 1), Some (Fin 2)],
         [Some (Fin 1), Some (Fin 2)], [Some (Fin 1), Some (Fin 2)],
         [Some (Fin 1), Some (Fin 2)]]
        [''2020-03-01''] [[Num (Fin 50)], [Num (Fin 2)], [Num (Fin 40)], [Num (Fin 0)]])
     = Inr [''2020-03-01'', ''2020-03-01''] \<and>
   card (set [''2020-03-01'', ''2020-03-01''] \<inter> set [''2020-03-01'']) = 1"
proof -
  have s: "to_datetime_date Some [''2020-03-01'', ''2020-03-01''] = Inr [''2020-03-01'', ''2020-03-01'']"
    by (simp add: bind_err_def)
  have t: "to_datetime_date Some [''2020-03-01''] = Inr [''2020-03-01'']"
    by (simp add: bind_err_def)
  show ?thesis
    unfolding pipeline_def clean_trrec_Inr [OF t]
    by (simp add: clean_sleep_Inr [OF s] bind_err_def index_merge)
qed

subsection \<open>The end-to-end scenario\<close>






end
